theory Spec2Isabelle
  imports Complex_Main "HOL-Library.Word"
begin

section \<open>Errors\<close>

text \<open>
  A Go \<open>error\<close> is a message. \<open>fmt.Errorf("msg: %w", err)\<close> wraps a cause and is
  \<open>Wrap msg err\<close>; \<open>fmt.Errorf("msg: %s", x)\<close> formats a text and is
  \<open>Err (msg @ x)\<close>. A run-time panic (nil dereference, a \<open>Must...\<close> helper) is
  \<open>Panic\<close>.
\<close>

datatype error =
    Err string
  | Wrap string error
  | Panic string

section \<open>Pool registry\<close>

record Pool =
  ChainName :: string
  PoolAddress :: string

text \<open>
  What the HTTP exchange of \<open>GetAllPools\<close> with the backend can produce: the request
  cannot be built, the transport fails, the body does not decode, or the body decodes
  to the list \<open>data.getAllPools\<close> and the messages of \<open>errors\<close>.
\<close>

datatype pools_exchange =
    PoolsRequestFailed error
  | PoolsSendFailed error
  | PoolsDecodeFailed error
  | PoolsDecoded "Pool list" "string list"

definition GetAllPools :: "pools_exchange \<Rightarrow> error + Pool list" where
  "GetAllPools x =
     (case x of
        PoolsRequestFailed e \<Rightarrow> Inl (Wrap ''error creating request'' e)
      | PoolsSendFailed e \<Rightarrow> Inl (Wrap ''error sending request'' e)
      | PoolsDecodeFailed e \<Rightarrow> Inl (Wrap ''error parsing response'' e)
      | PoolsDecoded ps errs \<Rightarrow>
          (case errs of
             m # _ \<Rightarrow> Inl (Err (''GraphQL error: '' @ m))
           | [] \<Rightarrow> Inr (map (\<lambda>pool. \<lparr>ChainName = ChainName pool,
                                      PoolAddress = PoolAddress pool\<rparr>) ps)))"

text \<open>The loop \<open>for _, pool := range pools\<close> of \<open>getPoolAddress\<close>.\<close>

fun pool_scan :: "Pool list \<Rightarrow> string \<Rightarrow> error + string" where
  "pool_scan [] token = Inl (Err (''pool not found for token: '' @ token))"
| "pool_scan (pool # pools) token =
     (if ChainName pool = token then Inr (PoolAddress pool) else pool_scan pools token)"

definition getPoolAddress :: "pools_exchange \<Rightarrow> string \<Rightarrow> error + string" where
  "getPoolAddress x token =
     (case GetAllPools x of
        Inl e \<Rightarrow> Inl (Wrap ''failed to get pools'' e)
      | Inr pools \<Rightarrow> pool_scan pools token)"

definition GetPool :: "pools_exchange \<Rightarrow> string \<Rightarrow> error + string" where
  "GetPool x chain = getPoolAddress x chain"

section \<open>Notification hub\<close>

text \<open>
  A subscriber is a \<open>*websocket.Conn\<close>; only its identity matters, so it is a number.
  The payload \<open>Data interface{}\<close> of a message is absent, a text or a map of
  texts (the three shapes this package sends).
\<close>

type_synonym conn = nat

datatype wsdata = NoData | TextData string | MapData "(string \<times> string) list"

record WSMessage =
  Type :: string
  Data :: wsdata
  Error :: string

text \<open>
  The WebSocket fields of \<open>Client\<close> together with the connections they reach:
  \<open>clients\<close> is the registry \<open>map[*websocket.Conn]bool\<close>, \<open>broadcast\<close> holds the
  messages sent on the channel and not yet received by \<open>handleBroadcasts\<close>. A
  connection is \<open>broken\<close> when a write on it fails (the peer is gone), \<open>closed\<close> once
  \<open>Close\<close> was called on it. \<open>wire\<close> lists every call of \<open>WriteJSON\<close> in order,
  \<open>delivered\<close> the messages written successfully on each connection. The read/write
  lock of the registry is not represented: the functions below run one at a time.
\<close>

record hub =
  clients :: "conn \<rightharpoonup> bool"
  broadcast :: "WSMessage list"
  broken :: "conn \<Rightarrow> bool"
  closed :: "conn \<Rightarrow> bool"
  wire :: "(conn \<times> WSMessage) list"
  delivered :: "conn \<Rightarrow> WSMessage list"

definition write_fails :: "hub \<Rightarrow> conn \<Rightarrow> bool" where
  "write_fails h c = (broken h c \<or> closed h c)"

definition WriteJSON :: "conn \<Rightarrow> WSMessage \<Rightarrow> hub \<Rightarrow> error option \<times> hub" where
  "WriteJSON c msg h =
     (if write_fails h c
      then (Some (Err ''write failed''), h\<lparr>wire := wire h @ [(c, msg)]\<rparr>)
      else (None, h\<lparr>wire := wire h @ [(c, msg)],
                      delivered := (delivered h)(c := delivered h c @ [msg])\<rparr>))"

definition Close :: "conn \<Rightarrow> hub \<Rightarrow> hub" where
  "Close c h = h\<lparr>closed := (closed h)(c := True)\<rparr>"

definition delete_client :: "conn \<Rightarrow> hub \<Rightarrow> hub" where
  "delete_client c h = h\<lparr>clients := (clients h)(c := None)\<rparr>"

text \<open>
  The inner loop \<open>for client := range c.clients\<close> of \<open>handleBroadcasts\<close>. Go visits
  the keys of a map in an order it does not specify, so the order is the argument
  \<open>order\<close>; a key deleted before the loop reaches it is not visited.
\<close>

fun range_clients :: "WSMessage \<Rightarrow> conn list \<Rightarrow> hub \<Rightarrow> hub" where
  "range_clients msg [] h = h"
| "range_clients msg (client # rest) h =
     (if clients h client = None then range_clients msg rest h
      else (case WriteJSON client msg h of
              (None, h') \<Rightarrow> range_clients msg rest h'
            | (Some err, h') \<Rightarrow> range_clients msg rest (delete_client client (Close client h'))))"

text \<open>
  One turn of that loop for a registered subscriber, written out: the write is
  recorded; when it fails the subscriber is closed and deleted, otherwise the message
  is delivered.
\<close>

definition visit :: "WSMessage \<Rightarrow> conn \<Rightarrow> hub \<Rightarrow> hub" where
  "visit msg c h =
     (if write_fails h c
      then h\<lparr>wire := wire h @ [(c, msg)], closed := (closed h)(c := True),
             clients := (clients h)(c := None)\<rparr>
      else h\<lparr>wire := wire h @ [(c, msg)],
             delivered := (delivered h)(c := delivered h c @ [msg])\<rparr>)"

text \<open>
  \<open>handleBroadcasts\<close>: the loop \<open>for msg := range c.broadcast\<close>, over the messages the
  channel delivers, each with the order in which the registry is visited for it.
\<close>

fun handleBroadcasts :: "(WSMessage \<times> conn list) list \<Rightarrow> hub \<Rightarrow> hub" where
  "handleBroadcasts [] h = h"
| "handleBroadcasts ((msg, order) # later) h =
     handleBroadcasts later (range_clients msg order h)"

text \<open>
  \<open>HandleWebSocket\<close>. \<open>ReadJSON\<close> gives a decoded message or fails (the connection
  ended, or a frame was not a JSON message); the results of its successive calls are a
  list, and the end of the list is the end of the connection.
\<close>

datatype read_result = ReadMessage WSMessage | ReadFailed

definition handle_inbound :: "conn \<Rightarrow> WSMessage \<Rightarrow> hub \<Rightarrow> hub" where
  "handle_inbound c msg h =
     (if Type msg = ''ping''
      then snd (WriteJSON c \<lparr>Type = ''pong'', Data = TextData ''pong'', Error = ''''\<rparr> h)
      else snd (WriteJSON c \<lparr>Type = ''error'', Data = NoData,
                            Error = ''Unknown message type''\<rparr> h))"

fun read_loop :: "conn \<Rightarrow> read_result list \<Rightarrow> hub \<Rightarrow> hub" where
  "read_loop c [] h = h"
| "read_loop c (ReadFailed # later) h = h"
| "read_loop c (ReadMessage msg # later) h = read_loop c later (handle_inbound c msg h)"

definition HandleWebSocket :: "error + conn \<Rightarrow> read_result list \<Rightarrow> hub \<Rightarrow> hub" where
  "HandleWebSocket upgrade inbound h =
     (case upgrade of
        Inl err \<Rightarrow> h
      | Inr c \<Rightarrow>
          (let h1 = h\<lparr>clients := (clients h)(c \<mapsto> True)\<rparr>;
               h2 = snd (WriteJSON c \<lparr>Type = ''connected'',
                      Data = TextData ''Successfully connected to WebSocket'',
                      Error = ''''\<rparr> h1);
               h3 = read_loop c inbound h2
           in Close c (delete_client c h3)))"

text \<open>A hub with three subscribers, the second of them gone, and an event.\<close>

definition demo_event :: WSMessage where
  "demo_event = \<lparr>Type = ''nft_listed'', Data = MapData [(''tokenId'', ''7'')], Error = ''''\<rparr>"

definition demo_hub :: hub where
  "demo_hub = \<lparr>clients = [1 \<mapsto> True, 2 \<mapsto> True, 3 \<mapsto> True], broadcast = [],
      broken = (\<lambda>c. c = 2), closed = (\<lambda>c. False), wire = [],
      delivered = (\<lambda>c. [])\<rparr>"

section \<open>JSON-RPC requests and the Solana transaction lookup\<close>

text \<open>A decoded JSON value; a Go \<open>map[string]interface{}\<close> is a list of fields.\<close>

datatype json =
    JNull
  | JBool bool
  | JNumber int
  | JString string
  | JArray "json list"
  | JObject "(string \<times> json) list"

type_synonym json_map = "(string \<times> json) list"

text \<open>
  What one call of \<open>makeRPCRequest\<close> meets: the body cannot be marshalled, the
  request cannot be built, the transport fails, the reply does not decode, or the
  reply decodes to a map.
\<close>

datatype rpc_exchange =
    RpcMarshalFailed error
  | RpcRequestFailed error
  | RpcSendFailed error
  | RpcDecodeFailed error
  | RpcDecoded json_map

text \<open>
  The pair \<open>(interface{}, error)\<close> that \<open>makeRPCRequest\<close> returns; a \<open>nil\<close>
  interface is \<open>None\<close>.
\<close>

type_synonym rpc_result = "json_map option \<times> error option"

definition makeRPCRequest :: "rpc_exchange \<Rightarrow> rpc_result" where
  "makeRPCRequest x =
     (case x of
        RpcMarshalFailed e \<Rightarrow> (None, Some e)
      | RpcRequestFailed e \<Rightarrow> (None, Some e)
      | RpcSendFailed e \<Rightarrow> (None, Some e)
      | RpcDecodeFailed e \<Rightarrow> (None, Some e)
      | RpcDecoded result \<Rightarrow> (Some result, None))"

text \<open>\<open>responseMap["result"] == nil\<close>: the key is absent or its value is \<open>null\<close>.\<close>

definition result_is_nil :: "json_map \<Rightarrow> bool" where
  "result_is_nil responseMap =
     (case map_of responseMap ''result'' of
        None \<Rightarrow> True
      | Some JNull \<Rightarrow> True
      | Some v \<Rightarrow> False)"

text \<open>
  What \<open>GetSolanaTransaction\<close> does to the outside: the \<open>n\<close>-th request it sends
  (counted from 0) and the seconds it sleeps.
\<close>

datatype poll_event = Request nat | Sleep nat

text \<open>
  The loop \<open>for i := 0; i < 10; i++\<close> of \<open>GetSolanaTransaction\<close>, from the state at
  the head of the loop: the counter, the variables \<open>response\<close> and \<open>err\<close>, and the
  events so far. \<open>node i\<close> is what the \<open>i\<close>-th request meets.
\<close>

function retry_loop ::
  "(nat \<Rightarrow> rpc_exchange) \<Rightarrow> nat \<Rightarrow> rpc_result \<Rightarrow> poll_event list
     \<Rightarrow> rpc_result \<times> poll_event list" where
  "retry_loop node i vars events =
     (if i < 10 then
        (let (response, err) = makeRPCRequest (node i);
             events' = events @ [Request i]
         in if (case response of Some responseMap \<Rightarrow> result_is_nil responseMap
                | None \<Rightarrow> False)
            then retry_loop node (i + 1) (response, err) (events' @ [Sleep 5])
            else if err = None then ((response, err), events')
            else retry_loop node (i + 1) (response, err) events')
      else (vars, events))"
  by pat_completeness auto
termination
  by (relation "measure (\<lambda>(node, i, vars, events). 10 - i)") auto

declare retry_loop.simps [simp del]

definition GetSolanaTransaction ::
  "(nat \<Rightarrow> rpc_exchange) \<Rightarrow> (error + json_map option) \<times> poll_event list" where
  "GetSolanaTransaction node =
     (let ((response, err), events) = retry_loop node 0 (None, None) []
      in case err of
           Some e \<Rightarrow> (Inl (Wrap ''failed to get Solana transaction after 10 retries'' e), events)
         | None \<Rightarrow> (Inr response, events))"

text \<open>The number of requests in a list of events, and the lengths of its sleeps.\<close>

definition request_count :: "poll_event list \<Rightarrow> nat" where
  "request_count events =
     length (filter (\<lambda>ev. case ev of Request n \<Rightarrow> True | Sleep s \<Rightarrow> False) events)"

definition sleep_times :: "poll_event list \<Rightarrow> nat list" where
  "sleep_times events =
     concat (map (\<lambda>ev. case ev of Request n \<Rightarrow> [] | Sleep s \<Rightarrow> [s]) events)"

text \<open>A node on which the transaction never becomes visible: every reply has a null result.\<close>

definition not_visible :: json_map where
  "not_visible = [(''jsonrpc'', JString ''2.0''), (''result'', JNull), (''id'', JNumber 1)]"

section \<open>Amounts: \<open>float64\<close> and \<open>big.Float\<close>\<close>

text \<open>
  A \<open>float64\<close> is a binary fraction or one of the special values: \<open>Finite m e\<close> is
  the number \<open>m * 2 ^ e\<close>. Every finite \<open>float64\<close> is of this form with a
  mantissa of at most 53 bits.
\<close>

datatype float64 = Finite int int | PosInf | NegInf | NaN

definition dyadic_less :: "int \<Rightarrow> int \<Rightarrow> int \<Rightarrow> int \<Rightarrow> bool" where
  "dyadic_less m1 e1 m2 e2 =
     (if e1 \<le> e2 then m1 < m2 * 2 ^ nat (e2 - e1) else m1 * 2 ^ nat (e1 - e2) < m2)"

text \<open>Go's \<open>x > y\<close> on \<open>float64\<close>: false whenever an operand is NaN.\<close>

fun f64_gt :: "float64 \<Rightarrow> float64 \<Rightarrow> bool" where
  "f64_gt NaN y = False"
| "f64_gt x NaN = False"
| "f64_gt PosInf y = (y \<noteq> PosInf)"
| "f64_gt NegInf y = False"
| "f64_gt (Finite m e) PosInf = False"
| "f64_gt (Finite m e) NegInf = True"
| "f64_gt (Finite m1 e1) (Finite m2 e2) = dyadic_less m2 e2 m1 e1"

text \<open>
  A \<open>big.Float\<close> of precision 53 with the default rounding mode (to nearest, ties to
  even): a binary fraction or an infinity (\<open>BigInf True\<close> is the negative one).
\<close>

datatype bigfloat = BigFinite int int | BigInf bool

text \<open>The number of bits of a positive integer.\<close>

function bitlen :: "int \<Rightarrow> nat" where
  "bitlen a = (if a \<le> 0 then 0 else Suc (bitlen (a div 2)))"
  by pat_completeness auto
termination
  by (relation "measure nat") auto

declare bitlen.simps [simp del]

text \<open>Rounding \<open>m * 2 ^ e\<close> to a mantissa of \<open>p\<close> bits, to nearest, ties to even.\<close>

definition round_prec :: "nat \<Rightarrow> int \<Rightarrow> int \<Rightarrow> int \<times> int" where
  "round_prec p m e =
     (let a = \<bar>m\<bar>; n = bitlen a
      in if n \<le> p then (m, e)
         else (let k = n - p; q = a div 2 ^ k; r = a mod 2 ^ k; half = 2 ^ (k - 1);
                   q' = (if r < half then q
                         else if half < r then q + 1
                         else if even q then q else q + 1)
               in (sgn m * q', e + int k)))"

text \<open>\<open>new(big.Float).SetFloat64(x)\<close>; it panics on NaN.\<close>

definition SetFloat64 :: "float64 \<Rightarrow> error + bigfloat" where
  "SetFloat64 x =
     (case x of
        NaN \<Rightarrow> Inl (Panic ''big: Float.SetFloat64(NaN)'')
      | PosInf \<Rightarrow> Inr (BigInf False)
      | NegInf \<Rightarrow> Inr (BigInf True)
      | Finite m e \<Rightarrow> Inr (case round_prec 53 m e of (m', e') \<Rightarrow> BigFinite m' e'))"

text \<open>
  \<open>z.Mul(x, y)\<close> with \<open>z\<close> of precision 53 (or 0, which takes the operands' 53): the
  exact product rounded to 53 bits. Zero times an infinity panics.
\<close>

fun big_Mul :: "bigfloat \<Rightarrow> bigfloat \<Rightarrow> error + bigfloat" where
  "big_Mul (BigFinite m1 e1) (BigFinite m2 e2) =
     Inr (case round_prec 53 (m1 * m2) (e1 + e2) of (m', e') \<Rightarrow> BigFinite m' e')"
| "big_Mul (BigInf s) (BigFinite m e) =
     (if m = 0 then Inl (Panic ''multiplication of zero with infinity'')
      else Inr (BigInf (s \<noteq> (m < 0))))"
| "big_Mul (BigFinite m e) (BigInf s) =
     (if m = 0 then Inl (Panic ''multiplication of zero with infinity'')
      else Inr (BigInf (s \<noteq> (m < 0))))"
| "big_Mul (BigInf s1) (BigInf s2) = Inr (BigInf (s1 \<noteq> s2))"

text \<open>
  \<open>x.Int(z)\<close>, as the value \<open>z\<close> holds afterwards: \<open>x\<close> truncated towards zero; for
  an infinity \<open>Int\<close> returns \<open>nil\<close> and leaves \<open>z\<close> as it was.
\<close>

fun big_Int :: "bigfloat \<Rightarrow> int \<Rightarrow> int" where
  "big_Int (BigFinite m e) z =
     (if 0 \<le> e then m * 2 ^ nat e else sgn m * (\<bar>m\<bar> div 2 ^ nat (- e)))"
| "big_Int (BigInf s) z = z"

text \<open>The constant \<open>1e18\<close> as a \<open>float64\<close>: \<open>5 ^ 18 * 2 ^ 18\<close>.\<close>

definition f64_1e18 :: float64 where
  "f64_1e18 = Finite 3814697265625 18"

text \<open>
  The conversion to wei that \<open>ExecuteNFTContractTransaction\<close>, \<open>ListToken\<close> and
  \<open>signEthereumTransaction\<close> each spell out: a \<open>big.Float\<close> from the amount,
  multiplied by the \<open>big.Float\<close> of \<open>1e18\<close>, and \<open>Int\<close> into a fresh \<open>big.Int\<close>.
\<close>

definition float_to_wei :: "float64 \<Rightarrow> error + int" where
  "float_to_wei amount =
     (case SetFloat64 amount of
        Inl p \<Rightarrow> Inl p
      | Inr amountFloat \<Rightarrow>
          (case SetFloat64 f64_1e18 of
             Inl p \<Rightarrow> Inl p
           | Inr multiplier \<Rightarrow>
               (case big_Mul amountFloat multiplier of
                  Inl p \<Rightarrow> Inl p
                | Inr result \<Rightarrow> Inr (big_Int result 0))))"




section \<open>Swap data\<close>

record SwapResult =
  FromToken :: string
  ToToken :: string
  FromAmount :: float64
  ToAmount :: float64
  ExchangeRate :: float64

record ChainParams =
  FromAddress :: string
  ToAddress :: string
  Amount :: string
  GasPrice :: string
  GasLimit :: "64 word"
  Nonce :: "64 word"
  RecentBlockhash :: string
  Lamports :: float64

record TransactionPrep =
  Chain :: string
  RawTx :: string
  ChainParams :: ChainParams

text \<open>\<open>TxToSign\<close> is a pointer: \<open>None\<close> is \<open>nil\<close>.\<close>

record SwapResponse =
  TxHash :: string
  SwapResult :: SwapResult
  Status :: string
  TxToSign :: "TransactionPrep option"
  DestinationAddress :: string

section \<open>Libraries and chain nodes\<close>

type_synonym bytes = "nat list"

text \<open>A legacy Ethereum transaction of go-ethereum; \<open>tx_gasPrice\<close> is a pointer.\<close>

record eth_tx =
  tx_nonce :: "64 word"
  tx_to :: bytes
  tx_value :: int
  tx_gas :: "64 word"
  tx_gasPrice :: "int option"
  tx_data :: bytes
  tx_signature :: "bytes option"

text \<open>The system program's transfer instruction and a transaction of solana-go.\<close>

record transfer_instruction =
  ti_lamports :: "64 word"
  ti_from :: bytes
  ti_to :: bytes

record sol_tx =
  sol_instructions :: "transfer_instruction list"
  sol_blockhash :: bytes
  sol_signatures :: "bytes list"

text \<open>
  The functions of \<open>strconv\<close>, \<open>fmt\<close>, \<open>math/big\<close>, go-ethereum, solana-go and
  base58 that the client calls. They are not part of this repository, so they are
  parameters: \<open>ParseFloat s\<close> is the pair that \<open>strconv.ParseFloat(s, 64)\<close> returns,
  \<open>FormatFloat\<close> is \<open>fmt.Sprintf("%f", x)\<close>, \<open>SetString10 s\<close> is
  \<open>new(big.Int).SetString(s, 10)\<close> (\<open>None\<close> when it reports failure), \<open>IntString\<close> is
  \<open>(*big.Int).String\<close>, \<open>FormatValue\<close> is \<open>%v\<close> of a decoded JSON value,
  \<open>HashFromBase58\<close> answers \<open>None\<close> where \<open>MustHashFromBase58\<close> panics,
  \<open>NewTransaction\<close> returns the pointer and the error of \<open>solana.NewTransaction\<close>,
  \<open>sol_Sign tx getter\<close> is the transaction after \<open>tx.Sign(getter)\<close> with the error
  it returns, and \<open>uint64_out_of_range\<close> is the implementation-dependent result of
  converting to \<open>uint64\<close> a \<open>float64\<close> that does not fit.
\<close>

record library =
  ParseFloat :: "string \<Rightarrow> float64 \<times> error option"
  FormatFloat :: "float64 \<Rightarrow> string"
  SetString10 :: "string \<Rightarrow> int option"
  IntString :: "int \<Rightarrow> string"
  FormatValue :: "json \<Rightarrow> string"
  HexToAddress :: "string \<Rightarrow> bytes"
  SignTx :: "eth_tx \<Rightarrow> int \<Rightarrow> bytes \<Rightarrow> error + eth_tx"
  eth_MarshalBinary :: "eth_tx \<Rightarrow> error + bytes"
  eth_UnmarshalBinary :: "bytes \<Rightarrow> error + eth_tx"
  eth_Hash :: "eth_tx \<Rightarrow> string"
  hexutil_Encode :: "bytes \<Rightarrow> string"
  hexutil_Decode :: "string \<Rightarrow> error + bytes"
  PublicKeyFromBase58 :: "string \<Rightarrow> error + bytes"
  HashFromBase58 :: "string \<Rightarrow> bytes option"
  NewTransaction :: "transfer_instruction list \<Rightarrow> bytes \<Rightarrow> sol_tx option \<times> error option"
  sol_Sign :: "sol_tx \<Rightarrow> (bytes \<Rightarrow> bytes option) \<Rightarrow> sol_tx \<times> error option"
  sol_MarshalBinary :: "sol_tx \<Rightarrow> error + bytes"
  sol_PublicKey :: "bytes \<Rightarrow> bytes"
  base58_Encode :: "bytes \<Rightarrow> string"
  uint64_out_of_range :: "float64 \<Rightarrow> 64 word"

text \<open>
  The process-wide key material \<open>chainKeys *keys.ChainKeys\<close>: the pointer and each
  of its two keys may be \<open>nil\<close>.
\<close>

record ChainKeys =
  EthereumKey :: "bytes option"
  SolanaKey :: "bytes option"

text \<open>One call of a contract method through \<open>contract.Transact\<close>.\<close>

record contract_call =
  call_method :: string
  call_args :: "int list"
  call_value :: int
  call_chain_id :: int

text \<open>
  What the backend and the two chain nodes answer: the reply to \<open>getAllPools\<close>; for
  Ethereum the outcome of \<open>Dial\<close>, \<open>SuggestGasPrice\<close>, \<open>PendingNonceAt\<close>,
  \<open>SendTransaction\<close>, \<open>NewKeyedTransactorWithChainID\<close>, \<open>Transact\<close> (the hash of the
  transaction it sent) and \<open>WaitMined\<close>; for Solana the outcome of
  \<open>GetLatestBlockhash\<close> and of the \<open>sendTransaction\<close> request for a raw transaction.
\<close>

record nodes =
  pools :: pools_exchange
  eth_dial :: "error option"
  eth_gas_price :: "error + int"
  eth_pending_nonce :: "bytes \<Rightarrow> error + 64 word"
  eth_send :: "eth_tx \<Rightarrow> error option"
  eth_transactor :: "error option"
  eth_transact :: "contract_call \<Rightarrow> error + string"
  eth_wait_mined :: "string \<Rightarrow> error option"
  sol_latest_blockhash :: "error + string"
  sol_send :: "string \<Rightarrow> rpc_exchange"

text \<open>What a submission puts on a network.\<close>

datatype submission = EthereumSent eth_tx | SolanaSent string

section \<open>Preparing a transaction\<close>

definition determineChain :: "string \<Rightarrow> string" where
  "determineChain token =
     (if token = ''ETH'' then ''ethereum''
      else if token = ''SOL'' then ''solana''
      else ''unknown'')"

definition prepareEthereumTransaction ::
  "library \<Rightarrow> nodes \<Rightarrow> SwapResponse \<Rightarrow> error option \<times> SwapResponse" where
  "prepareEthereumTransaction L W swap =
     (case getPoolAddress (pools W) (ToToken (SwapResult swap)) of
        Inl e \<Rightarrow> (Some (Wrap ''failed to get source pool address'' e), swap)
      | Inr fromAddress \<Rightarrow>
     (case eth_dial W of
        Some e \<Rightarrow> (Some (Wrap ''failed to connect to Ethereum node'' e), swap)
      | None \<Rightarrow>
     (case eth_gas_price W of
        Inl e \<Rightarrow> (Some (Wrap ''failed to get gas price'' e), swap)
      | Inr gasPrice \<Rightarrow>
     (case eth_pending_nonce W (HexToAddress L fromAddress) of
        Inl e \<Rightarrow> (Some (Wrap ''failed to get nonce'' e), swap)
      | Inr nonce \<Rightarrow>
          (None, swap\<lparr>TxToSign := Some
             \<lparr>Chain = ''ethereum'',
              RawTx = '''',
              ChainParams =
                \<lparr>FromAddress = fromAddress,
                 ToAddress = DestinationAddress swap,
                 Amount = FormatFloat L (ToAmount (SwapResult swap)),
                 GasPrice = IntString L gasPrice,
                 GasLimit = 21000,
                 Nonce = nonce,
                 RecentBlockhash = '''',
                 Lamports = Finite 0 0\<rparr>\<rparr>\<rparr>)))))"

definition prepareSolanaTransaction ::
  "library \<Rightarrow> nodes \<Rightarrow> SwapResponse \<Rightarrow> error option \<times> SwapResponse" where
  "prepareSolanaTransaction L W swap =
     (case getPoolAddress (pools W) (ToToken (SwapResult swap)) of
        Inl e \<Rightarrow> (Some (Wrap ''failed to get source pool address'' e), swap)
      | Inr fromAddress \<Rightarrow>
     (case sol_latest_blockhash W of
        Inl e \<Rightarrow> (Some (Wrap ''failed to get recent blockhash'' e), swap)
      | Inr blockhash \<Rightarrow>
          (None, swap\<lparr>TxToSign := Some
             \<lparr>Chain = ''solana'',
              RawTx = '''',
              ChainParams =
                \<lparr>FromAddress = fromAddress,
                 ToAddress = DestinationAddress swap,
                 Amount = FormatFloat L (ToAmount (SwapResult swap)),
                 GasPrice = '''',
                 GasLimit = 0,
                 Nonce = 0,
                 RecentBlockhash = blockhash,
                 Lamports = ToAmount (SwapResult swap)\<rparr>\<rparr>\<rparr>)))"

definition PrepareTransaction ::
  "library \<Rightarrow> nodes \<Rightarrow> string \<Rightarrow> SwapResponse \<Rightarrow> error option \<times> SwapResponse" where
  "PrepareTransaction L W chain swap =
     (if chain = ''ethereum'' then prepareEthereumTransaction L W swap
      else if chain = ''solana'' then prepareSolanaTransaction L W swap
      else (Some (Err (''unsupported chain: '' @ chain)), swap))"

section \<open>Signing\<close>

text \<open>
  The transaction object \<open>signEthereumTransaction\<close> builds with
  \<open>types.NewTransaction\<close>: the value is the amount text parsed as a \<open>float64\<close> (the
  parse error is dropped) and converted to wei, the gas price the decimal text parsed
  as a \<open>big.Int\<close> (\<open>nil\<close> when it does not parse), the data \<open>nil\<close>.
\<close>

definition new_ethereum_transaction :: "library \<Rightarrow> ChainParams \<Rightarrow> error + eth_tx" where
  "new_ethereum_transaction L params =
     (let amountFloat = fst (ParseFloat L (Amount params))
      in case float_to_wei amountFloat of
           Inl p \<Rightarrow> Inl p
         | Inr amountBigInt \<Rightarrow>
             Inr \<lparr>tx_nonce = Nonce params,
                  tx_to = HexToAddress L (ToAddress params),
                  tx_value = amountBigInt,
                  tx_gas = GasLimit params,
                  tx_gasPrice = SetString10 L (GasPrice params),
                  tx_data = [],
                  tx_signature = None\<rparr>)"

definition signEthereumTransaction ::
  "library \<Rightarrow> ChainKeys option \<Rightarrow> SwapResponse \<Rightarrow> error option \<times> SwapResponse" where
  "signEthereumTransaction L chainKeys swap =
     (case (case chainKeys of None \<Rightarrow> None | Some ks \<Rightarrow> EthereumKey ks) of
        None \<Rightarrow> (Some (Err ''ethereum private key not initialized''), swap)
      | Some key \<Rightarrow>
     (case TxToSign swap of
        None \<Rightarrow> (Some (Panic ''nil pointer dereference''), swap)
      | Some prep \<Rightarrow>
     (case new_ethereum_transaction L (ChainParams prep) of
        Inl p \<Rightarrow> (Some p, swap)
      | Inr tx \<Rightarrow>
     (case SignTx L tx 1337 key of
        Inl e \<Rightarrow> (Some (Wrap ''failed to sign transaction'' e), swap)
      | Inr signedTx \<Rightarrow>
     (case eth_MarshalBinary L signedTx of
        Inl e \<Rightarrow> (Some (Wrap ''failed to encode signed transaction'' e), swap)
      | Inr rawTxBytes \<Rightarrow>
          (None, swap\<lparr>TxToSign := Some (prep\<lparr>RawTx := hexutil_Encode L rawTxBytes\<rparr>)\<rparr>))))))"

text \<open>
  \<open>uint64(x)\<close> for a \<open>float64\<close>: the fraction is discarded; a value that does not fit
  (negative, too large, infinite or NaN) converts to an implementation-dependent
  number.
\<close>

definition uint64_of_float64 :: "library \<Rightarrow> float64 \<Rightarrow> 64 word" where
  "uint64_of_float64 L x =
     (case x of
        Finite m e \<Rightarrow>
          (let t = big_Int (BigFinite m e) 0
           in if 0 \<le> t \<and> t < 2 ^ 64 then word_of_int t else uint64_out_of_range L x)
      | _ \<Rightarrow> uint64_out_of_range L x)"

text \<open>
  The instruction \<open>signSolanaTransaction\<close> builds with
  \<open>system.NewTransferInstruction\<close>: its lamports are \<open>uint64(Lamports)\<close>.
\<close>

definition new_transfer_instruction ::
  "library \<Rightarrow> ChainParams \<Rightarrow> bytes \<Rightarrow> bytes \<Rightarrow> transfer_instruction" where
  "new_transfer_instruction L params from_address to_address =
     \<lparr>ti_lamports = uint64_of_float64 L (Lamports params),
      ti_from = from_address,
      ti_to = to_address\<rparr>"

text \<open>The key lookup \<open>signSolanaTransaction\<close> hands to \<open>tx.Sign\<close>.\<close>

definition solana_key_getter :: "library \<Rightarrow> bytes \<Rightarrow> bytes \<Rightarrow> bytes option" where
  "solana_key_getter L solanaKey key =
     (if sol_PublicKey L solanaKey = key then Some solanaKey else None)"

definition signSolanaTransaction ::
  "library \<Rightarrow> ChainKeys option \<Rightarrow> SwapResponse \<Rightarrow> error option \<times> SwapResponse" where
  "signSolanaTransaction L chainKeys swap =
     (case (case chainKeys of None \<Rightarrow> None | Some ks \<Rightarrow> SolanaKey ks) of
        None \<Rightarrow> (Some (Err ''solana private key not initialized''), swap)
      | Some solanaKey \<Rightarrow>
     (case TxToSign swap of
        None \<Rightarrow> (Some (Panic ''nil pointer dereference''), swap)
      | Some prep \<Rightarrow>
     (case PublicKeyFromBase58 L (FromAddress (ChainParams prep)) of
        Inl e \<Rightarrow> (Some (Wrap ''failed to get from address'' e), swap)
      | Inr from_address \<Rightarrow>
     (case PublicKeyFromBase58 L (ToAddress (ChainParams prep)) of
        Inl e \<Rightarrow> (Some (Wrap ''failed to get to address'' e), swap)
      | Inr to_address \<Rightarrow>
     (case HashFromBase58 L (RecentBlockhash (ChainParams prep)) of
        None \<Rightarrow> (Some (Panic ''MustHashFromBase58''), swap)
      | Some blockhash \<Rightarrow>
     (case fst (NewTransaction L
                 [new_transfer_instruction L (ChainParams prep) from_address to_address]
                 blockhash) of
        None \<Rightarrow> (Some (Panic ''nil pointer dereference''), swap)
      | Some tx \<Rightarrow>
     (let tx' = fst (sol_Sign L tx (solana_key_getter L solanaKey))
      in case sol_MarshalBinary L tx' of
           Inl e \<Rightarrow> (Some (Wrap ''failed to serialize signed transaction'' e), swap)
         | Inr rawTx \<Rightarrow>
             (None, swap\<lparr>TxToSign := Some (prep\<lparr>RawTx := base58_Encode L rawTx\<rparr>)\<rparr>))))))))"

definition SignTransaction ::
  "library \<Rightarrow> ChainKeys option \<Rightarrow> SwapResponse \<Rightarrow> error option \<times> SwapResponse" where
  "SignTransaction L chainKeys swap =
     (case TxToSign swap of
        None \<Rightarrow> (Some (Err ''no transaction prepared for signing''), swap)
      | Some prep \<Rightarrow>
          (if Chain prep = ''ethereum'' then signEthereumTransaction L chainKeys swap
           else if Chain prep = ''solana'' then signSolanaTransaction L chainKeys swap
           else (Some (Err (''unsupported chain for signing: '' @ Chain prep)), swap)))"

section \<open>Submitting\<close>

text \<open>
  The submitting functions return the error, the swap as they leave it, and what they
  put on a network.
\<close>

definition submitEthereumTransaction ::
  "library \<Rightarrow> nodes \<Rightarrow> SwapResponse \<Rightarrow> error option \<times> SwapResponse \<times> submission list" where
  "submitEthereumTransaction L W swap =
     (case eth_dial W of
        Some e \<Rightarrow> (Some (Wrap ''failed to connect to Ethereum node'' e), swap, [])
      | None \<Rightarrow>
     (case TxToSign swap of
        None \<Rightarrow> (Some (Panic ''nil pointer dereference''), swap, [])
      | Some prep \<Rightarrow>
     (case hexutil_Decode L (RawTx prep) of
        Inl e \<Rightarrow> (Some (Wrap ''failed to decode raw transaction'' e), swap, [])
      | Inr rawTxBytes \<Rightarrow>
     (case eth_UnmarshalBinary L rawTxBytes of
        Inl e \<Rightarrow> (Some (Wrap ''failed to unmarshal transaction'' e), swap, [])
      | Inr tx \<Rightarrow>
     (case eth_send W tx of
        Some e \<Rightarrow> (Some (Wrap ''failed to submit transaction'' e), swap, [EthereumSent tx])
      | None \<Rightarrow>
          (None, swap\<lparr>TxHash := eth_Hash L tx, Status := ''submitted''\<rparr>,
           [EthereumSent tx]))))))"

definition submitSolanaTransaction ::
  "library \<Rightarrow> nodes \<Rightarrow> SwapResponse \<Rightarrow> error option \<times> SwapResponse \<times> submission list" where
  "submitSolanaTransaction L W swap =
     (case TxToSign swap of
        None \<Rightarrow> (Some (Panic ''nil pointer dereference''), swap, [])
      | Some prep \<Rightarrow>
     (case makeRPCRequest (sol_send W (RawTx prep)) of
        (response, Some e) \<Rightarrow>
          (Some (Wrap ''failed to submit transaction'' e), swap, [SolanaSent (RawTx prep)])
      | (None, None) \<Rightarrow>
          (Some (Err ''invalid response format''), swap, [SolanaSent (RawTx prep)])
      | (Some result, None) \<Rightarrow>
     (case map_of result ''error'' of
        Some errMsg \<Rightarrow>
          (Some (Err (''RPC error: '' @ FormatValue L errMsg)), swap, [SolanaSent (RawTx prep)])
      | None \<Rightarrow>
     (case map_of result ''result'' of
        Some (JString signature) \<Rightarrow>
          (None, swap\<lparr>TxHash := signature, Status := ''submitted''\<rparr>,
           [SolanaSent (RawTx prep)])
      | _ \<Rightarrow>
          (Some (Err ''invalid signature format in response''), swap,
           [SolanaSent (RawTx prep)])))))"

definition SubmitTransaction ::
  "library \<Rightarrow> nodes \<Rightarrow> SwapResponse \<Rightarrow> error option \<times> SwapResponse \<times> submission list" where
  "SubmitTransaction L W swap =
     (case TxToSign swap of
        None \<Rightarrow> (Some (Err ''no signed transaction available''), swap, [])
      | Some prep \<Rightarrow>
          (if RawTx prep = '''' then (Some (Err ''no signed transaction available''), swap, [])
           else if Chain prep = ''ethereum'' then submitEthereumTransaction L W swap
           else if Chain prep = ''solana'' then submitSolanaTransaction L W swap
           else (Some (Err (''unsupported chain for submission: '' @ Chain prep)), swap, [])))"

section \<open>NFT transfer\<close>

text \<open>
  The parameters of a transfer and the reply to the transfer mutation; their fields
  carry the names of the JSON tags (\<open>toToken\<close> for \<open>ToToken\<close>, \<open>amount\<close> for
  \<open>Amount\<close>, \<open>data\<close> for \<open>Data\<close>, and so on).
\<close>

record TransferParams =
  sourceOwner :: string
  tokenId :: string
  targetChainId :: string
  targetOwner :: string
  chainOwner :: string
  buyFromToken :: string
  toToken :: string
  amount :: string
  blobHash :: string
  nftId :: string

record TransferResponse =
  data :: string
  errors :: "string list"

text \<open>The NFT that \<open>nftUsingBlobHash\<close> describes.\<close>

record NftUsingBlobHash =
  Token :: string
  TokenId :: string
  Price :: string
  ChainOwner :: string
  ChainMinter :: string
  Name :: string
  Owner :: string
  ID :: int
  Minter :: string
  Payload :: "int list"

datatype nft_exchange =
    NftRequestFailed error
  | NftSendFailed error
  | NftDecodeFailed error
  | NftDecoded NftUsingBlobHash

text \<open>The arguments that \<open>ExecuteTransferMutation\<close> writes into the mutation text.\<close>

record transfer_mutation =
  arg_sourceOwner :: string
  arg_tokenId :: string
  arg_chainId :: string
  arg_owner :: string
  arg_chainOwner :: string
  arg_buyFromToken :: string
  arg_toToken :: string
  arg_amount :: string

datatype transfer_exchange =
    TransferRequestFailed error
  | TransferSendFailed error
  | TransferDecodeFailed error
  | TransferDecoded TransferResponse

text \<open>The NFT backend: its answer to the NFT query for an id and to a transfer mutation.\<close>

record nft_service =
  nft_query :: "string \<Rightarrow> nft_exchange"
  transfer_reply :: "transfer_mutation \<Rightarrow> transfer_exchange"

definition GetNFTDetails :: "nft_service \<Rightarrow> string \<Rightarrow> error + NftUsingBlobHash" where
  "GetNFTDetails S blobHashId =
     (case nft_query S blobHashId of
        NftRequestFailed e \<Rightarrow> Inl (Wrap ''error creating NFT query request'' e)
      | NftSendFailed e \<Rightarrow> Inl (Wrap ''error executing NFT query'' e)
      | NftDecodeFailed e \<Rightarrow> Inl (Wrap ''error parsing NFT query response'' e)
      | NftDecoded nftResp \<Rightarrow> Inr nftResp)"

text \<open>\<open>parseFloat64\<close>: the number \<open>ParseFloat\<close> returns, its error dropped.\<close>

definition parseFloat64 :: "library \<Rightarrow> string \<Rightarrow> float64" where
  "parseFloat64 L s = (case ParseFloat L s of (f, err) \<Rightarrow> f)"

text \<open>
  \<open>ExecuteNFTContractTransaction\<close> returns its result and the contract calls it made.
  \<open>var amount float64\<close> (here \<open>amount'\<close>) starts as zero and is assigned only in
  the branch \<open>calSwapAmount > listedPrice\<close>. The token id goes through \<open>strconv.Itoa\<close> and
  \<open>SetString\<close>, which always succeeds on it. A \<open>nil\<close> key makes
  \<open>NewKeyedTransactorWithChainID\<close> panic.
\<close>

definition ExecuteNFTContractTransaction ::
  "ChainKeys option \<Rightarrow> nodes \<Rightarrow> int \<Rightarrow> float64 \<Rightarrow> float64
     \<Rightarrow> (error + string) \<times> contract_call list" where
  "ExecuteNFTContractTransaction chainKeys W token_id calSwapAmount listedPrice =
     (case eth_dial W of
        Some e \<Rightarrow> (Inl (Wrap ''failed to connect to Ethereum node'' e), [])
      | None \<Rightarrow>
     (let amount' = (if f64_gt calSwapAmount listedPrice then listedPrice else Finite 0 0)
      in case float_to_wei amount' of
           Inl p \<Rightarrow> (Inl p, [])
         | Inr amountWei \<Rightarrow>
     (case (case chainKeys of None \<Rightarrow> None | Some ks \<Rightarrow> EthereumKey ks) of
        None \<Rightarrow> (Inl (Panic ''nil pointer dereference''), [])
      | Some key \<Rightarrow>
     (case eth_transactor W of
        Some e \<Rightarrow> (Inl (Wrap ''failed to create auth'' e), [])
      | None \<Rightarrow>
     (let call = \<lparr>call_method = ''executeSale'', call_args = [token_id],
                   call_value = amountWei, call_chain_id = 1337\<rparr>
      in case eth_transact W call of
           Inl e \<Rightarrow> (Inl (Wrap ''failed to execute sale'' e), [call])
         | Inr hash \<Rightarrow>
             (case eth_wait_mined W hash of
                Some e \<Rightarrow> (Inl (Wrap ''failed to wait for transaction'' e), [call])
              | None \<Rightarrow> (Inr hash, [call])))))))"

text \<open>The three messages \<open>ExecuteTransferMutation\<close> sends on the broadcast channel.\<close>

definition transfer_initiated :: WSMessage where
  "transfer_initiated =
     \<lparr>Type = ''nft_transfer_initiated'',
      Data = MapData [(''status'', ''initiated''),
                      (''message'', ''fetching nft detail from nft solver'')],
      Error = ''''\<rparr>"

definition transfer_pending :: WSMessage where
  "transfer_pending =
     \<lparr>Type = ''nft_transfer_pending'',
      Data = MapData [(''status'', ''pending''),
                      (''message'', ''Dex solver and Nft solver will be coordinated for transfer'')],
      Error = ''''\<rparr>"

definition transfer_completed :: WSMessage where
  "transfer_completed =
     \<lparr>Type = ''nft_transfer_completed'',
      Data = MapData [(''status'', ''completed''),
                      (''message'', ''Successfully coordination complete between solvers and executed transfer'')],
      Error = ''''\<rparr>"

definition transfer_mutation_of :: "TransferParams \<Rightarrow> transfer_mutation" where
  "transfer_mutation_of params =
     \<lparr>arg_sourceOwner = sourceOwner params,
      arg_tokenId = tokenId params,
      arg_chainId = targetChainId params,
      arg_owner = targetOwner params,
      arg_chainOwner = chainOwner params,
      arg_buyFromToken = buyFromToken params,
      arg_toToken = toToken params,
      arg_amount = amount params\<rparr>"

text \<open>
  \<open>ExecuteTransferMutation\<close> returns its result (the reply and the hash of the sale),
  the messages it sent on the broadcast channel and the contract calls it made. A
  panic of the sale is not an error value: it is passed on as it is.
\<close>

definition ExecuteTransferMutation ::
  "library \<Rightarrow> ChainKeys option \<Rightarrow> nodes \<Rightarrow> nft_service \<Rightarrow> TransferParams
     \<Rightarrow> (error + TransferResponse \<times> string) \<times> WSMessage list \<times> contract_call list" where
  "ExecuteTransferMutation L chainKeys W S params =
     (case GetNFTDetails S (nftId params) of
        Inl e \<Rightarrow> (Inl (Wrap ''failed to get NFT details'' e), [transfer_initiated], [])
      | Inr nftDetails \<Rightarrow>
     (case (if toToken params = ''ETH''
            then ExecuteNFTContractTransaction chainKeys W (ID nftDetails)
                   (parseFloat64 L (amount params)) (parseFloat64 L (Price nftDetails))
            else (Inr '''', [])) of
        (Inl (Panic p), calls) \<Rightarrow> (Inl (Panic p), [transfer_initiated], calls)
      | (Inl e, calls) \<Rightarrow>
          (Inl (Wrap ''failed to execute NFT contract transaction after transfer'' e),
           [transfer_initiated], calls)
      | (Inr hash, calls) \<Rightarrow>
     (case transfer_reply S (transfer_mutation_of params) of
        TransferRequestFailed e \<Rightarrow>
          (Inl (Wrap ''error creating transfer request'' e),
           [transfer_initiated, transfer_pending], calls)
      | TransferSendFailed e \<Rightarrow>
          (Inl (Wrap ''error executing transfer'' e),
           [transfer_initiated, transfer_pending], calls)
      | TransferDecodeFailed e \<Rightarrow>
          (Inl (Wrap ''error parsing transfer response'' e),
           [transfer_initiated, transfer_pending], calls)
      | TransferDecoded transferResp \<Rightarrow>
          (case errors transferResp of
             m # ms \<Rightarrow>
               (Inl (Err (''transfer error: '' @ m)),
                [transfer_initiated, transfer_pending], calls)
           | [] \<Rightarrow>
               (Inr (transferResp, hash),
                [transfer_initiated, transfer_pending, transfer_completed], calls)))))"

section \<open>A concrete library, key set, node set and backend\<close>

text \<open>
  An instance of the parameters for the examples. \<open>ParseFloat\<close> is given on the
  texts the examples use, as \<open>strconv.ParseFloat\<close> answers on them: \<open>1.5\<close> and
  \<open>1.500000\<close> are the \<open>float64\<close> with the 53-bit mantissa \<open>3 * 2 ^ 51\<close> and
  the exponent \<open>-52\<close>, \<open>1.000000\<close> is 1, \<open>2\<close> is 2, and a text that is not a
  number gives 0 with a syntax error. The signing functions are stand-ins: the
  Ethereum signature is the key, the Solana signature is the key when the getter knows
  the paying account and is missing, with an error, when it does not.
\<close>

definition demo_ParseFloat :: "string \<Rightarrow> float64 \<times> error option" where
  "demo_ParseFloat s =
     (if s = ''1.5'' \<or> s = ''1.500000'' then (Finite 6755399441055744 (- 52), None)
      else if s = ''1.000000'' then (Finite 1 0, None)
      else if s = ''2'' then (Finite 2 0, None)
      else (Finite 0 0, Some (Err ''strconv.ParseFloat: invalid syntax'')))"

definition demo_Sign :: "sol_tx \<Rightarrow> (bytes \<Rightarrow> bytes option) \<Rightarrow> sol_tx \<times> error option" where
  "demo_Sign tx getter =
     (case sol_instructions tx of
        [] \<Rightarrow> (tx, None)
      | i # is \<Rightarrow>
          (case getter (ti_from i) of
             None \<Rightarrow> (tx, Some (Err ''signer key not found''))
           | Some key \<Rightarrow> (tx\<lparr>sol_signatures := [key]\<rparr>, None)))"

definition demo_library :: library where
  "demo_library =
     \<lparr>ParseFloat = demo_ParseFloat,
      FormatFloat = (\<lambda>x. ''1.500000''),
      SetString10 = (\<lambda>s. if s = ''20000000000'' then Some 20000000000 else None),
      IntString = (\<lambda>i. ''20000000000''),
      FormatValue = (\<lambda>v. ''error''),
      HexToAddress = (\<lambda>s. map of_char s),
      SignTx = (\<lambda>tx chain key. Inr (tx\<lparr>tx_signature := Some key\<rparr>)),
      eth_MarshalBinary = (\<lambda>tx. Inr (nat (tx_value tx mod 256) # unat (tx_nonce tx) # tx_to tx)),
      eth_UnmarshalBinary = (\<lambda>b. Inl (Err ''rlp: unexpected input'')),
      eth_Hash = (\<lambda>tx. ''0xhash''),
      hexutil_Encode = (\<lambda>b. ''0x'' @ map char_of b),
      hexutil_Decode = (\<lambda>s. Inr (map of_char s)),
      PublicKeyFromBase58 = (\<lambda>s. if s = [] then Inl (Err ''invalid length'') else Inr (map of_char s)),
      HashFromBase58 = (\<lambda>s. if s = [] then None else Some (map of_char s)),
      NewTransaction = (\<lambda>is h. (Some \<lparr>sol_instructions = is, sol_blockhash = h,
                                         sol_signatures = []\<rparr>, None)),
      sol_Sign = demo_Sign,
      sol_MarshalBinary = (\<lambda>tx. Inr (concat (sol_signatures tx) @ sol_blockhash tx)),
      sol_PublicKey = (\<lambda>key. map Suc key),
      base58_Encode = (\<lambda>b. map char_of b),
      uint64_out_of_range = (\<lambda>x. 0)\<rparr>"

definition demo_keys :: "ChainKeys option" where
  "demo_keys = Some \<lparr>EthereumKey = Some [1, 2, 3], SolanaKey = Some [4, 5, 6]\<rparr>"

definition demo_nodes :: nodes where
  "demo_nodes =
     \<lparr>pools = PoolsDecoded [\<lparr>ChainName = ''SOL'', PoolAddress = ''SoPool''\<rparr>,
                              \<lparr>ChainName = ''ETH'', PoolAddress = ''0xPool''\<rparr>] [],
      eth_dial = None,
      eth_gas_price = Inr 20000000000,
      eth_pending_nonce = (\<lambda>a. Inr 7),
      eth_send = (\<lambda>tx. None),
      eth_transactor = None,
      eth_transact = (\<lambda>call. Inr ''0xsale''),
      eth_wait_mined = (\<lambda>h. None),
      sol_latest_blockhash = Inr ''blockhash'',
      sol_send = (\<lambda>raw. RpcDecoded [(''result'', JString ''signature'')])\<rparr>"

definition demo_nft :: NftUsingBlobHash where
  "demo_nft =
     \<lparr>Token = ''ETH'', TokenId = ''token'', Price = ''2'', ChainOwner = ''0xowner'',
      ChainMinter = ''0xminter'', Name = ''Rect'', Owner = ''owner'', ID = 7,
      Minter = ''minter'', Payload = []\<rparr>"

definition demo_service :: nft_service where
  "demo_service =
     \<lparr>nft_query = (\<lambda>i. NftDecoded demo_nft),
      transfer_reply = (\<lambda>m. TransferDecoded \<lparr>data = ''done'', errors = []\<rparr>)\<rparr>"

definition demo_params :: TransferParams where
  "demo_params =
     \<lparr>sourceOwner = ''owner'', tokenId = ''token'', targetChainId = ''chain'',
      targetOwner = ''buyer'', chainOwner = ''0xbuyer'', buyFromToken = ''SOL'',
      toToken = ''ETH'', amount = ''1.000000'', blobHash = ''blob'', nftId = ''7''\<rparr>"

definition demo_quote :: SwapResult where
  "demo_quote =
     \<lparr>FromToken = ''SOL'', ToToken = ''ETH'', FromAmount = Finite 10 0,
      ToAmount = Finite 3 (- 1), ExchangeRate = Finite 3 (- 1)\<rparr>"

definition demo_swap :: SwapResponse where
  "demo_swap =
     \<lparr>TxHash = ''swap'', SwapResult = demo_quote, Status = ''pending'', TxToSign = None,
      DestinationAddress = ''0xdest''\<rparr>"

definition demo_solana_prep :: TransactionPrep where
  "demo_solana_prep =
     \<lparr>Chain = ''solana'', RawTx = '''',
      ChainParams =
        \<lparr>FromAddress = ''SoPool'', ToAddress = ''dest'', Amount = ''2.500000'',
         GasPrice = '''', GasLimit = 0, Nonce = 0, RecentBlockhash = ''blockhash'',
         Lamports = Finite 5 (- 1)\<rparr>\<rparr>"


section \<open>Pool lookup\<close>

lemma GetAllPools_decoded: "GetAllPools (PoolsDecoded ps []) = Inr ps"
  by (simp add: GetAllPools_def map_idI)

lemma pool_scan_find:
  "pool_scan ps token =
     (case find (\<lambda>p. ChainName p = token) ps of
        Some p \<Rightarrow> Inr (PoolAddress p)
      | None \<Rightarrow> Inl (Err (''pool not found for token: '' @ token)))"
  by (induction ps) auto

lemma pool_scan_unique:
  assumes "p \<in> set ps" and "ChainName p = token"
    and "\<forall>q \<in> set ps. ChainName q = token \<longrightarrow> PoolAddress q = PoolAddress p"
  shows "pool_scan ps token = Inr (PoolAddress p)"
proof (cases "find (\<lambda>p. ChainName p = token) ps")
  case None
  with assms(1,2) show ?thesis by (simp add: find_None_iff)
next
  case (Some q)
  then have "q \<in> set ps" and "ChainName q = token"
    by (auto simp: find_Some_iff)
  with assms(3) have "PoolAddress q = PoolAddress p" by blast
  with Some show ?thesis by (simp add: pool_scan_find)
qed

lemma pool_scan_none:
  "\<forall>q \<in> set ps. ChainName q \<noteq> token
     \<Longrightarrow> pool_scan ps token = Inl (Err (''pool not found for token: '' @ token))"
  by (induction ps) auto

lemma GetPool_decoded: "GetPool (PoolsDecoded ps []) chain = pool_scan ps chain"
  by (simp add: GetPool_def getPoolAddress_def GetAllPools_decoded)

text \<open>
  C8. For every pool registry \<open>ps\<close> the backend returns (without GraphQL errors),
  \<open>GetPool chain\<close> returns the pool address of the first entry of \<open>ps\<close> whose
  \<open>chainName\<close> equals \<open>chain\<close>. In particular, when \<open>p\<close> is an entry with that chain
  name and every entry with that chain name carries the same address (for instance when
  \<open>p\<close> is the only one), the result is the address of \<open>p\<close>. When no entry has the
  chain name, the call fails with the error \<open>pool not found for token: chain\<close>.
\<close>

theorem GetPool_lookup:
  "GetPool (PoolsDecoded ps []) chain =
     (case find (\<lambda>p. ChainName p = chain) ps of
        Some p \<Rightarrow> Inr (PoolAddress p)
      | None \<Rightarrow> Inl (Err (''pool not found for token: '' @ chain)))
   \<and> (\<forall>p \<in> set ps. ChainName p = chain
          \<and> (\<forall>q \<in> set ps. ChainName q = chain \<longrightarrow> PoolAddress q = PoolAddress p)
        \<longrightarrow> GetPool (PoolsDecoded ps []) chain = Inr (PoolAddress p))
   \<and> ((\<forall>q \<in> set ps. ChainName q \<noteq> chain)
        \<longrightarrow> GetPool (PoolsDecoded ps []) chain
              = Inl (Err (''pool not found for token: '' @ chain)))"
proof (intro conjI ballI impI)
  show "GetPool (PoolsDecoded ps []) chain =
     (case find (\<lambda>p. ChainName p = chain) ps of
        Some p \<Rightarrow> Inr (PoolAddress p)
      | None \<Rightarrow> Inl (Err (''pool not found for token: '' @ chain)))"
    unfolding GetPool_decoded by (rule pool_scan_find)
next
  fix p
  assume p: "p \<in> set ps"
    and h: "ChainName p = chain
      \<and> (\<forall>q \<in> set ps. ChainName q = chain \<longrightarrow> PoolAddress q = PoolAddress p)"
  from h have h1: "ChainName p = chain"
    and h2: "\<forall>q \<in> set ps. ChainName q = chain \<longrightarrow> PoolAddress q = PoolAddress p"
    by blast+
  show "GetPool (PoolsDecoded ps []) chain = Inr (PoolAddress p)"
    unfolding GetPool_decoded by (rule pool_scan_unique [OF p h1 h2])
next
  assume none: "\<forall>q \<in> set ps. ChainName q \<noteq> chain"
  show "GetPool (PoolsDecoded ps []) chain
              = Inl (Err (''pool not found for token: '' @ chain))"
    unfolding GetPool_decoded by (rule pool_scan_none [OF none])
qed

theorem GetPool_lookup_witness:
  "GetPool (PoolsDecoded
       [\<lparr>ChainName = ''solana'', PoolAddress = ''So1anaPool''\<rparr>,
        \<lparr>ChainName = ''ethereum'', PoolAddress = ''0xE7hPool''\<rparr>] []) ''ethereum''
     = Inr ''0xE7hPool''
   \<and> GetPool (PoolsDecoded
       [\<lparr>ChainName = ''solana'', PoolAddress = ''So1anaPool''\<rparr>,
        \<lparr>ChainName = ''ethereum'', PoolAddress = ''0xE7hPool''\<rparr>] []) ''bitcoin''
     = Inl (Err ''pool not found for token: bitcoin'')"
proof -
  let ?ps = "[\<lparr>ChainName = ''solana'', PoolAddress = ''So1anaPool''\<rparr>,
        \<lparr>ChainName = ''ethereum'', PoolAddress = ''0xE7hPool''\<rparr>]"
  let ?p = "\<lparr>ChainName = ''ethereum'', PoolAddress = ''0xE7hPool''\<rparr>"
  have none: "\<forall>q \<in> set ?ps. ChainName q \<noteq> ''bitcoin''"
    by simp
  have one: "?p \<in> set ?ps" by simp
  have same: "ChainName ?p = ''ethereum''
     \<and> (\<forall>q \<in> set ?ps. ChainName q = ''ethereum'' \<longrightarrow> PoolAddress q = PoolAddress ?p)"
    by simp
  from GetPool_lookup [of ?ps "''ethereum''"] one same
  have a: "GetPool (PoolsDecoded ?ps []) ''ethereum'' = Inr (PoolAddress ?p)"
    by blast
  from GetPool_lookup [of ?ps "''bitcoin''"] none
  have b: "GetPool (PoolsDecoded ?ps []) ''bitcoin''
      = Inl (Err (''pool not found for token: '' @ ''bitcoin''))"
    by blast
  from a b show ?thesis by simp
qed

section \<open>Broadcast delivery\<close>

lemma WriteJSON_fields:
  "wire (snd (WriteJSON c msg h)) = wire h @ [(c, msg)]"
  "clients (snd (WriteJSON c msg h)) = clients h"
  "broadcast (snd (WriteJSON c msg h)) = broadcast h"
  "broken (snd (WriteJSON c msg h)) = broken h"
  "closed (snd (WriteJSON c msg h)) = closed h"
  "delivered (snd (WriteJSON c msg h)) =
     (if write_fails h c then delivered h else (delivered h)(c := delivered h c @ [msg]))"
  "fst (WriteJSON c msg h) = None \<longleftrightarrow> \<not> write_fails h c"
  by (simp_all add: WriteJSON_def)

lemma range_clients_step:
  "clients h c \<noteq> None \<Longrightarrow>
     range_clients msg (c # rest) h = range_clients msg rest (visit msg c h)"
  by (cases "clients h c") (simp_all add: WriteJSON_def visit_def Close_def delete_client_def)

lemma visit_fields:
  "wire (visit msg c h) = wire h @ [(c, msg)]"
  "broadcast (visit msg c h) = broadcast h"
  "broken (visit msg c h) = broken h"
  "c' \<noteq> c \<Longrightarrow> clients (visit msg c h) c' = clients h c'"
  "c' \<noteq> c \<Longrightarrow> write_fails (visit msg c h) c' = write_fails h c'"
  "c' \<noteq> c \<Longrightarrow> delivered (visit msg c h) c' = delivered h c'"
  "clients (visit msg c h) c = (if write_fails h c then None else clients h c)"
  "delivered (visit msg c h) c = (if write_fails h c then delivered h c else delivered h c @ [msg])"
  by (simp_all add: visit_def write_fails_def)

lemma range_clients_effect:
  assumes "distinct order" and "\<forall>c \<in> set order. clients h c \<noteq> None"
  shows "wire (range_clients msg order h) = wire h @ map (\<lambda>c. (c, msg)) order
    \<and> broadcast (range_clients msg order h) = broadcast h
    \<and> (\<forall>c. clients (range_clients msg order h) c =
          (if c \<in> set order \<and> write_fails h c then None else clients h c))
    \<and> (\<forall>c. delivered (range_clients msg order h) c =
          (if c \<in> set order \<and> \<not> write_fails h c then delivered h c @ [msg]
           else delivered h c))"
  using assms
proof (induction order arbitrary: h)
  case Nil
  then show ?case by simp
next
  case (Cons c rest)
  let ?h = "visit msg c h"
  from Cons.prems have c: "clients h c \<noteq> None" and notin: "c \<notin> set rest"
    and d: "distinct rest" by simp_all
  have reg: "\<forall>c' \<in> set rest. clients ?h c' \<noteq> None"
  proof
    fix c' assume in_rest: "c' \<in> set rest"
    with notin have "c' \<noteq> c" by auto
    then have "clients ?h c' = clients h c'" by (simp add: visit_fields)
    with in_rest Cons.prems(2) show "clients ?h c' \<noteq> None" by simp
  qed
  have same: "write_fails ?h c' = write_fails h c'" if "c' \<in> set rest" for c'
  proof -
    from that notin have "c' \<noteq> c" by auto
    then show ?thesis by (simp add: visit_fields)
  qed
  from Cons.IH [OF d reg]
  have w: "wire (range_clients msg rest ?h) = wire ?h @ map (\<lambda>c. (c, msg)) rest"
    and b: "broadcast (range_clients msg rest ?h) = broadcast ?h"
    and cl: "\<And>c'. clients (range_clients msg rest ?h) c' =
          (if c' \<in> set rest \<and> write_fails ?h c' then None else clients ?h c')"
    and dl: "\<And>c'. delivered (range_clients msg rest ?h) c' =
          (if c' \<in> set rest \<and> \<not> write_fails ?h c' then delivered ?h c' @ [msg]
           else delivered ?h c')"
    by blast+
  have step: "range_clients msg (c # rest) h = range_clients msg rest ?h"
    by (rule range_clients_step [OF c])
  show ?case
    unfolding step
  proof (intro conjI allI)
    show "wire (range_clients msg rest ?h) = wire h @ map (\<lambda>c. (c, msg)) (c # rest)"
      by (simp add: w visit_fields)
    show "broadcast (range_clients msg rest ?h) = broadcast h"
      by (simp add: b visit_fields)
  next
    fix c'
    show "clients (range_clients msg rest ?h) c' =
          (if c' \<in> set (c # rest) \<and> write_fails h c' then None else clients h c')"
    proof (cases "c' = c")
      case True
      with notin show ?thesis by (simp add: cl visit_fields)
    next
      case False
      with same [of c'] show ?thesis by (simp add: cl visit_fields)
    qed
  next
    fix c'
    show "delivered (range_clients msg rest ?h) c' =
          (if c' \<in> set (c # rest) \<and> \<not> write_fails h c' then delivered h c' @ [msg]
           else delivered h c')"
    proof (cases "c' = c")
      case True
      with notin show ?thesis by (simp add: dl visit_fields)
    next
      case False
      with same [of c'] show ?thesis by (simp add: dl visit_fields)
    qed
  qed
qed

lemma handleBroadcasts_one:
  "handleBroadcasts [(msg, order)] h = range_clients msg order h"
  by simp

text \<open>
  C5. Let the registry hold the \<open>N\<close> subscribers \<open>dom (clients h)\<close>, visited in any
  order \<open>order\<close>. Broadcasting one event \<open>msg\<close> through the delivery loop calls
  \<open>WriteJSON\<close> with \<open>msg\<close> once for every one of the \<open>N\<close> subscribers and for nobody
  else. If the write fails for exactly one subscriber \<open>c0\<close>, every other subscriber
  has \<open>msg\<close> delivered, \<open>c0\<close> has nothing delivered, and the registry afterwards is the
  old one without \<open>c0\<close>.
\<close>

theorem broadcast_reaches_all:
  assumes "distinct order" and "set order = dom (clients h)"
  shows "wire (handleBroadcasts [(msg, order)] h) = wire h @ map (\<lambda>c. (c, msg)) order
    \<and> length (wire (handleBroadcasts [(msg, order)] h)) = length (wire h) + card (dom (clients h))
    \<and> (\<forall>c0 \<in> dom (clients h).
          write_fails h c0 \<and> (\<forall>c \<in> dom (clients h). c \<noteq> c0 \<longrightarrow> \<not> write_fails h c)
          \<longrightarrow> (\<forall>c \<in> dom (clients h). c \<noteq> c0 \<longrightarrow>
                  delivered (handleBroadcasts [(msg, order)] h) c = delivered h c @ [msg])
              \<and> delivered (handleBroadcasts [(msg, order)] h) c0 = delivered h c0
              \<and> dom (clients (handleBroadcasts [(msg, order)] h)) = dom (clients h) - {c0})"
proof -
  let ?h = "range_clients msg order h"
  from assms(2) have reg: "\<forall>c \<in> set order. clients h c \<noteq> None"
    by (simp add: domIff)
  from range_clients_effect [OF assms(1) reg, of msg]
  have w: "wire ?h = wire h @ map (\<lambda>c. (c, msg)) order"
    and cl: "\<And>c. clients ?h c = (if c \<in> set order \<and> write_fails h c then None else clients h c)"
    and dl: "\<And>c. delivered ?h c =
          (if c \<in> set order \<and> \<not> write_fails h c then delivered h c @ [msg]
           else delivered h c)"
    by blast+
  have n: "length order = card (dom (clients h))"
    using assms distinct_card [of order] by simp
  have one: "(\<forall>c \<in> dom (clients h). c \<noteq> c0 \<longrightarrow> delivered ?h c = delivered h c @ [msg])
      \<and> delivered ?h c0 = delivered h c0
      \<and> dom (clients ?h) = dom (clients h) - {c0}"
    if c0: "c0 \<in> dom (clients h)" and bad: "write_fails h c0"
      and good: "\<forall>c \<in> dom (clients h). c \<noteq> c0 \<longrightarrow> \<not> write_fails h c" for c0
  proof (intro conjI ballI impI)
    fix c assume "c \<in> dom (clients h)" and "c \<noteq> c0"
    with good assms(2) show "delivered ?h c = delivered h c @ [msg]"
      by (simp add: dl)
  next
    from bad show "delivered ?h c0 = delivered h c0" by (simp add: dl)
  next
    show "dom (clients ?h) = dom (clients h) - {c0}"
    proof (rule set_eqI)
      fix c
      show "c \<in> dom (clients ?h) \<longleftrightarrow> c \<in> dom (clients h) - {c0}"
      proof (cases "c = c0")
        case True
        with c0 bad assms(2) show ?thesis by (simp add: domIff cl)
      next
        case False
        show ?thesis
        proof (cases "c \<in> dom (clients h)")
          case True
          with False good have "\<not> write_fails h c" by blast
          with True False show ?thesis by (simp add: domIff cl)
        next
          case False
          then show ?thesis by (simp add: domIff cl)
        qed
      qed
    qed
  qed
  show ?thesis
    unfolding handleBroadcasts_one
    using w n one by (simp only: length_append length_map) blast
qed

theorem broadcast_reaches_all_witness:
  "wire (handleBroadcasts [(demo_event, [3, 1, 2])] demo_hub)
      = [(3, demo_event), (1, demo_event), (2, demo_event)]
   \<and> delivered (handleBroadcasts [(demo_event, [3, 1, 2])] demo_hub) 1 = [demo_event]
   \<and> delivered (handleBroadcasts [(demo_event, [3, 1, 2])] demo_hub) 3 = [demo_event]
   \<and> delivered (handleBroadcasts [(demo_event, [3, 1, 2])] demo_hub) 2 = []
   \<and> dom (clients (handleBroadcasts [(demo_event, [3, 1, 2])] demo_hub)) = {1, 3}"
proof -
  let ?h' = "handleBroadcasts [(demo_event, [3, 1, 2])] demo_hub"
  have d: "distinct [3, 1, 2 :: conn]" by simp
  have s: "set [3, 1, 2] = dom (clients demo_hub)"
    by (auto simp: demo_hub_def)
  note T = broadcast_reaches_all [OF d s, of demo_event]
  have c0: "(2 :: conn) \<in> dom (clients demo_hub)" by (simp add: demo_hub_def)
  have pre: "write_fails demo_hub 2
      \<and> (\<forall>c \<in> dom (clients demo_hub). c \<noteq> 2 \<longrightarrow> \<not> write_fails demo_hub c)"
    by (simp add: demo_hub_def write_fails_def)
  note w = T [THEN conjunct1]
  note rest = T [THEN conjunct2, THEN conjunct2, rule_format, OF c0 pre]
  have c1: "(1 :: conn) \<in> dom (clients demo_hub)" and c3: "(3 :: conn) \<in> dom (clients demo_hub)"
    by (simp_all add: demo_hub_def)
  have n1: "(1 :: conn) \<noteq> 2" and n3: "(3 :: conn) \<noteq> 2" by simp_all
  note d1 = rest [THEN conjunct1, rule_format, OF c1 n1]
  note d3 = rest [THEN conjunct1, rule_format, OF c3 n3]
  note d2 = rest [THEN conjunct2, THEN conjunct1]
  note dm = rest [THEN conjunct2, THEN conjunct2]
  have e: "wire demo_hub = []" "delivered demo_hub = (\<lambda>c. [])"
    "dom (clients demo_hub) - {2} = {1, 3}"
    by (auto simp: demo_hub_def)
  show ?thesis
    by (simp only: w d1 d3 d2 dm e) simp
qed

section \<open>Inbound subscriber messages\<close>

lemma handle_inbound_frame:
  "broadcast (handle_inbound c msg h) = broadcast h"
  "clients (handle_inbound c msg h) = clients h"
  "length (wire (handle_inbound c msg h)) = Suc (length (wire h))"
  "c' \<noteq> c \<Longrightarrow> delivered (handle_inbound c msg h) c' = delivered h c'"
  "map fst (wire (handle_inbound c msg h)) = map fst (wire h) @ [c]"
  by (simp_all add: handle_inbound_def WriteJSON_fields)

lemma read_loop_frame:
  "broadcast (read_loop c (map ReadMessage msgs) h) = broadcast h
   \<and> clients (read_loop c (map ReadMessage msgs) h) = clients h
   \<and> length (wire (read_loop c (map ReadMessage msgs) h)) = length (wire h) + length msgs
   \<and> map fst (wire (read_loop c (map ReadMessage msgs) h))
        = map fst (wire h) @ replicate (length msgs) c
   \<and> (\<forall>c'. c' \<noteq> c \<longrightarrow> delivered (read_loop c (map ReadMessage msgs) h) c' = delivered h c')"
proof (induction msgs arbitrary: h)
  case Nil
  then show ?case by simp
next
  case (Cons m msgs)
  show ?case
    using Cons.IH [of "handle_inbound c m h"]
    by (simp add: handle_inbound_frame replicate_app_Cons_same)
qed

text \<open>
  C6. For every decoded inbound message \<open>msg\<close> read from the subscriber \<open>c\<close>: when its
  type is \<open>ping\<close> the hub makes exactly one write, to \<open>c\<close>, of the message of type
  \<open>pong\<close>; for every other type it makes exactly one write, to \<open>c\<close>, of the message of
  type \<open>error\<close> with the error text \<open>Unknown message type\<close>. In both cases nothing
  is put on the broadcast channel, the registry is unchanged and no other subscriber
  has anything delivered. The same holds along the whole read loop: \<open>n\<close> inbound
  messages give \<open>n\<close> writes, all to \<open>c\<close>.
\<close>

theorem inbound_reply:
  "(Type msg = ''ping'' \<longrightarrow>
      wire (handle_inbound c msg h)
        = wire h @ [(c, \<lparr>Type = ''pong'', Data = TextData ''pong'', Error = ''''\<rparr>)])
   \<and> (Type msg \<noteq> ''ping'' \<longrightarrow>
      wire (handle_inbound c msg h)
        = wire h @ [(c, \<lparr>Type = ''error'', Data = NoData, Error = ''Unknown message type''\<rparr>)])
   \<and> broadcast (handle_inbound c msg h) = broadcast h
   \<and> clients (handle_inbound c msg h) = clients h
   \<and> (\<forall>c'. c' \<noteq> c \<longrightarrow> delivered (handle_inbound c msg h) c' = delivered h c')
   \<and> broadcast (read_loop c (map ReadMessage msgs) h) = broadcast h
   \<and> map fst (wire (read_loop c (map ReadMessage msgs) h))
        = map fst (wire h) @ replicate (length msgs) c
   \<and> (\<forall>c'. c' \<noteq> c \<longrightarrow> delivered (read_loop c (map ReadMessage msgs) h) c' = delivered h c')"
proof (intro conjI impI allI)
  assume "Type msg = ''ping''"
  then show "wire (handle_inbound c msg h)
        = wire h @ [(c, \<lparr>Type = ''pong'', Data = TextData ''pong'', Error = ''''\<rparr>)]"
    by (simp add: handle_inbound_def WriteJSON_fields)
next
  assume "Type msg \<noteq> ''ping''"
  then show "wire (handle_inbound c msg h)
        = wire h @ [(c, \<lparr>Type = ''error'', Data = NoData, Error = ''Unknown message type''\<rparr>)]"
    by (simp add: handle_inbound_def WriteJSON_fields)
next
  show "broadcast (handle_inbound c msg h) = broadcast h"
    by (rule handle_inbound_frame)
  show "clients (handle_inbound c msg h) = clients h"
    by (rule handle_inbound_frame)
  show "broadcast (read_loop c (map ReadMessage msgs) h) = broadcast h"
    using read_loop_frame [of c msgs h] by blast
  show "map fst (wire (read_loop c (map ReadMessage msgs) h))
        = map fst (wire h) @ replicate (length msgs) c"
    using read_loop_frame [of c msgs h] by blast
next
  fix c' assume "c' \<noteq> c"
  then show "delivered (handle_inbound c msg h) c' = delivered h c'"
    by (rule handle_inbound_frame)
next
  fix c' assume "c' \<noteq> c"
  then show "delivered (read_loop c (map ReadMessage msgs) h) c' = delivered h c'"
    using read_loop_frame [of c msgs h] by blast
qed

theorem inbound_reply_witness:
  "wire (handle_inbound 1 \<lparr>Type = ''ping'', Data = TextData ''ping'', Error = ''''\<rparr> demo_hub)
      = [(1, \<lparr>Type = ''pong'', Data = TextData ''pong'', Error = ''''\<rparr>)]
   \<and> wire (handle_inbound 1 \<lparr>Type = ''unknown'', Data = TextData ''test'', Error = ''''\<rparr> demo_hub)
      = [(1, \<lparr>Type = ''error'', Data = NoData, Error = ''Unknown message type''\<rparr>)]
   \<and> delivered (handle_inbound 1 \<lparr>Type = ''ping'', Data = TextData ''ping'', Error = ''''\<rparr> demo_hub) 3
      = []"
proof -
  let ?ping = "\<lparr>Type = ''ping'', Data = TextData ''ping'', Error = ''''\<rparr>"
  let ?other = "\<lparr>Type = ''unknown'', Data = TextData ''test'', Error = ''''\<rparr>"
  have p: "Type ?ping = ''ping''" by simp
  have q: "Type ?other \<noteq> ''ping''" by simp
  have r: "(3 :: conn) \<noteq> 1" by simp
  from inbound_reply [of ?ping 1 demo_hub "[]"] p
  have a: "wire (handle_inbound 1 ?ping demo_hub)
      = wire demo_hub @ [(1, \<lparr>Type = ''pong'', Data = TextData ''pong'', Error = ''''\<rparr>)]"
    by blast
  from inbound_reply [of ?other 1 demo_hub "[]"] q
  have b: "wire (handle_inbound 1 ?other demo_hub)
      = wire demo_hub @ [(1, \<lparr>Type = ''error'', Data = NoData, Error = ''Unknown message type''\<rparr>)]"
    by blast
  from inbound_reply [of ?ping 1 demo_hub "[]"] r
  have c: "delivered (handle_inbound 1 ?ping demo_hub) 3 = delivered demo_hub 3"
    by blast
  have e: "wire demo_hub = []" "delivered demo_hub 3 = []"
    by (simp_all add: demo_hub_def)
  show ?thesis
    by (simp only: a b c e) simp
qed

section \<open>Transaction lookup retries\<close>

text \<open>
  For every node: the lookup sends at most ten requests, every sleep lasts five
  seconds, and an error is returned only when the tenth request itself failed (in
  transport or decoding); a tenth reply that decodes, whatever its result, ends in a
  success.
\<close>

lemma retry_loop_bounded:
  "request_count (snd (retry_loop node i vars events)) \<le> request_count events + (10 - i)
   \<and> set (sleep_times (snd (retry_loop node i vars events))) \<subseteq> set (sleep_times events) \<union> {5}"
proof (induction node i vars events rule: retry_loop.induct)
  case (1 node i vars events)
  show ?case
  proof (cases "i < 10")
    case False
    then show ?thesis by (auto simp: retry_loop.simps)
  next
    case True
    obtain response err where r: "makeRPCRequest (node i) = (response, err)"
      by (cases "makeRPCRequest (node i)")
    let ?nil = "case response of Some responseMap \<Rightarrow> result_is_nil responseMap | None \<Rightarrow> False"
    show ?thesis
    proof (cases ?nil)
      case nil: True
      from "1.IH"(1) [OF True r [symmetric] refl refl nil]
      show ?thesis
        using True r nil
        by (subst (1 2) retry_loop.simps) (auto simp: request_count_def sleep_times_def)
    next
      case notnil: False
      show ?thesis
      proof (cases "err = None")
        case True
        with \<open>i < 10\<close> r notnil show ?thesis
          by (subst (1 2) retry_loop.simps) (auto simp: request_count_def sleep_times_def)
      next
        case False
        from "1.IH"(2) [OF \<open>i < 10\<close> r [symmetric] refl refl notnil False]
        show ?thesis
          using \<open>i < 10\<close> r notnil False
          by (subst (1 2) retry_loop.simps) (auto simp: request_count_def sleep_times_def)
      qed
    qed
  qed
qed

lemma GetSolanaTransaction_events:
  "snd (GetSolanaTransaction node) = snd (retry_loop node 0 (None, None) [])"
  by (simp add: GetSolanaTransaction_def split: prod.splits option.splits)

lemma GetSolanaTransaction_bounded:
  "request_count (snd (GetSolanaTransaction node)) \<le> 10
   \<and> set (sleep_times (snd (GetSolanaTransaction node))) \<subseteq> {5}"
  using retry_loop_bounded [of node 0 "(None, None)" "[]"]
  unfolding GetSolanaTransaction_events
  by (simp add: request_count_def sleep_times_def)

lemma retry_loop_error:
  assumes "snd (fst (retry_loop node i vars events)) = Some e"
  shows "(10 \<le> i \<and> snd vars = Some e) \<or> (i < 10 \<and> snd (makeRPCRequest (node 9)) = Some e)"
  using assms
proof (induction node i vars events rule: retry_loop.induct)
  case (1 node i vars events)
  show ?case
  proof (cases "i < 10")
    case False
    with "1.prems" show ?thesis by (simp add: retry_loop.simps)
  next
    case True
    obtain response err where r: "makeRPCRequest (node i) = (response, err)"
      by (cases "makeRPCRequest (node i)")
    let ?nil = "case response of Some responseMap \<Rightarrow> result_is_nil responseMap | None \<Rightarrow> False"
    show ?thesis
    proof (cases ?nil)
      case nil: True
      have "snd (fst (retry_loop node (i + 1) (response, err) ((events @ [Request i]) @ [Sleep 5])))
          = Some e"
        using "1.prems" True r nil by (subst (asm) retry_loop.simps) simp
      from "1.IH"(1) [OF True r [symmetric] refl refl nil this] True r
      show ?thesis by (cases "i = 9") auto
    next
      case notnil: False
      show ?thesis
      proof (cases "err = None")
        case True
        with "1.prems" \<open>i < 10\<close> r notnil show ?thesis
          by (subst (asm) retry_loop.simps) simp
      next
        case False
        have "snd (fst (retry_loop node (i + 1) (response, err) (events @ [Request i]))) = Some e"
          using "1.prems" \<open>i < 10\<close> r notnil False by (subst (asm) retry_loop.simps) simp
        from "1.IH"(2) [OF \<open>i < 10\<close> r [symmetric] refl refl notnil False this] \<open>i < 10\<close> r
        show ?thesis by (cases "i = 9") auto
      qed
    qed
  qed
qed

lemma GetSolanaTransaction_error_only_on_failed_request:
  assumes "fst (GetSolanaTransaction node) = Inl e"
  shows "\<forall>m. node 9 \<noteq> RpcDecoded m"
proof -
  obtain response err events where l: "retry_loop node 0 (None, None) [] = ((response, err), events)"
    by (metis prod.exhaust)
  with assms obtain e' where "err = Some e'"
    by (auto simp: GetSolanaTransaction_def split: option.splits)
  with l have "snd (fst (retry_loop node 0 (None, None) [])) = Some e'" by simp
  from retry_loop_error [OF this] have "snd (makeRPCRequest (node 9)) = Some e'" by simp
  then show ?thesis by (auto simp: makeRPCRequest_def)
qed

lemma retry_loop_not_visible:
  "i \<le> 10 \<Longrightarrow>
   retry_loop (\<lambda>n. RpcDecoded not_visible) i vars events =
     (if i < 10
      then ((Some not_visible, None),
            events @ concat (map (\<lambda>n. [Request n, Sleep 5]) [i ..< 10]))
      else (vars, events))"
proof (induction "10 - i" arbitrary: i vars events)
  case 0
  then show ?case by (simp add: retry_loop.simps)
next
  case (Suc k)
  then have i: "i < 10" and k: "k = 10 - (i + 1)" and le: "i + 1 \<le> 10" by simp_all
  have nil: "result_is_nil not_visible"
    by (simp add: result_is_nil_def not_visible_def)
  have unfold: "retry_loop (\<lambda>n. RpcDecoded not_visible) i vars events
      = retry_loop (\<lambda>n. RpcDecoded not_visible) (i + 1) (Some not_visible, None)
          ((events @ [Request i]) @ [Sleep 5])"
    using i nil by (subst retry_loop.simps) (simp add: makeRPCRequest_def)
  note IH = Suc.hyps(1) [OF k le, of "(Some not_visible, None)" "(events @ [Request i]) @ [Sleep 5]"]
  from i IH show ?case
    by (simp add: unfold upt_conv_Cons)
qed

text \<open>
  C2, on the node where the transaction never becomes visible (every one of the
  replies decodes to a map whose \<open>result\<close> is \<open>null\<close>): \<open>GetSolanaTransaction\<close> sends
  ten requests, sleeps five seconds after each of them, and then returns the last
  reply as a success, not an error.
\<close>

theorem GetSolanaTransaction_never_visible:
  "GetSolanaTransaction (\<lambda>n. RpcDecoded not_visible) =
     (Inr (Some not_visible),
      concat (map (\<lambda>n. [Request n, Sleep 5]) [0 ..< 10]))"
  by (simp add: GetSolanaTransaction_def retry_loop_not_visible del: upt_Suc)

section \<open>Conversion of amounts\<close>
















section \<open>Stage preconditions\<close>

text \<open>
  C4. For every swap with no prepared transaction (\<open>TxToSign\<close> is \<open>nil\<close>),
  \<open>SignTransaction\<close> fails with the error \<open>no transaction prepared for signing\<close> and
  leaves the swap as it was: no library function is called, whatever the library and
  the keys are. For every swap with no signed raw bytes (\<open>TxToSign\<close> is \<open>nil\<close>, or its
  \<open>RawTx\<close> is empty), \<open>SubmitTransaction\<close> fails with the error
  \<open>no signed transaction available\<close>, leaves the swap as it was and puts nothing on a
  network.
\<close>

theorem stage_preconditions:
  "(TxToSign swap = None \<longrightarrow>
      SignTransaction L K swap = (Some (Err ''no transaction prepared for signing''), swap))
   \<and> (TxToSign swap = None \<longrightarrow>
      SubmitTransaction L W swap = (Some (Err ''no signed transaction available''), swap, []))
   \<and> (\<forall>prep. TxToSign swap = Some prep \<and> RawTx prep = '''' \<longrightarrow>
      SubmitTransaction L W swap = (Some (Err ''no signed transaction available''), swap, []))"
  by (simp add: SignTransaction_def SubmitTransaction_def)

theorem stage_preconditions_witness:
  "SignTransaction demo_library demo_keys demo_swap
     = (Some (Err ''no transaction prepared for signing''), demo_swap)
   \<and> SubmitTransaction demo_library demo_nodes demo_swap
     = (Some (Err ''no signed transaction available''), demo_swap, [])
   \<and> SubmitTransaction demo_library demo_nodes (demo_swap\<lparr>TxToSign := Some demo_solana_prep\<rparr>)
     = (Some (Err ''no signed transaction available''),
        demo_swap\<lparr>TxToSign := Some demo_solana_prep\<rparr>, [])"
proof -
  let ?s = "demo_swap\<lparr>TxToSign := Some demo_solana_prep\<rparr>"
  have none: "TxToSign demo_swap = None" by (simp add: demo_swap_def)
  have empty: "TxToSign ?s = Some demo_solana_prep \<and> RawTx demo_solana_prep = ''''"
    by (simp add: demo_solana_prep_def)
  note T = stage_preconditions [of demo_swap demo_library demo_keys demo_nodes]
  note U = stage_preconditions [of ?s demo_library demo_keys demo_nodes]
  from T [THEN conjunct1, rule_format, OF none]
    T [THEN conjunct2, THEN conjunct1, rule_format, OF none]
    U [THEN conjunct2, THEN conjunct2, rule_format, OF empty]
  show ?thesis by (intro conjI)
qed

section \<open>Signing\<close>












text \<open>
  C10. \<open>signSolanaTransaction\<close> looks neither at the error of \<open>NewTransaction\<close> nor at
  the result of \<open>tx.Sign\<close>. For every prepared Solana transaction, with the Solana key
  present, both addresses and the block hash decoded and a transaction object built:
  whenever the serialization of the transaction as \<open>tx.Sign\<close> left it succeeds, the
  function returns no error and stores the base58 text of the serialized bytes in
  \<open>RawTx\<close>, whatever error (\<open>build_err\<close>, \<open>sign_err\<close>) the construction or the signing
  reported, so also when no signature was produced.
\<close>

theorem solana_signing_discards_errors:
  assumes "K = Some ks" and "SolanaKey ks = Some key" and "TxToSign swap = Some prep"
    and "PublicKeyFromBase58 L (FromAddress (ChainParams prep)) = Inr a"
    and "PublicKeyFromBase58 L (ToAddress (ChainParams prep)) = Inr b"
    and "HashFromBase58 L (RecentBlockhash (ChainParams prep)) = Some h"
    and "NewTransaction L [new_transfer_instruction L (ChainParams prep) a b] h
           = (Some tx, build_err)"
    and "sol_Sign L tx (solana_key_getter L key) = (tx', sign_err)"
    and "sol_MarshalBinary L tx' = Inr raw"
  shows "signSolanaTransaction L K swap
    = (None, swap\<lparr>TxToSign := Some (prep\<lparr>RawTx := base58_Encode L raw\<rparr>)\<rparr>)"
  using assms by (simp add: signSolanaTransaction_def)

theorem solana_signing_discards_errors_witness:
  "sol_Sign demo_library
      \<lparr>sol_instructions = [new_transfer_instruction demo_library (ChainParams demo_solana_prep)
           (map of_char ''SoPool'') (map of_char ''dest'')],
       sol_blockhash = map of_char ''blockhash'', sol_signatures = []\<rparr>
      (solana_key_getter demo_library [4, 5, 6])
     = (\<lparr>sol_instructions = [new_transfer_instruction demo_library (ChainParams demo_solana_prep)
           (map of_char ''SoPool'') (map of_char ''dest'')],
         sol_blockhash = map of_char ''blockhash'', sol_signatures = []\<rparr>,
        Some (Err ''signer key not found''))
   \<and> signSolanaTransaction demo_library demo_keys (demo_swap\<lparr>TxToSign := Some demo_solana_prep\<rparr>)
     = (None, demo_swap\<lparr>TxToSign := Some (demo_solana_prep\<lparr>RawTx :=
          base58_Encode demo_library (map of_char ''blockhash'')\<rparr>)\<rparr>)"
proof -
  let ?swap = "demo_swap\<lparr>TxToSign := Some demo_solana_prep\<rparr>"
  let ?a = "map of_char ''SoPool'' :: bytes"
  let ?b = "map of_char ''dest'' :: bytes"
  let ?h = "map of_char ''blockhash'' :: bytes"
  let ?tx = "\<lparr>sol_instructions = [new_transfer_instruction demo_library
        (ChainParams demo_solana_prep) ?a ?b], sol_blockhash = ?h, sol_signatures = []\<rparr>"
  have k: "demo_keys = Some \<lparr>EthereumKey = Some [1, 2, 3], SolanaKey = Some [4, 5, 6]\<rparr>"
    by (simp add: demo_keys_def)
  have key: "SolanaKey \<lparr>EthereumKey = Some [1, 2, 3], SolanaKey = Some [4, 5, 6]\<rparr>
      = Some [4, 5, 6]" by simp
  have prep: "TxToSign ?swap = Some demo_solana_prep" by simp
  have a: "PublicKeyFromBase58 demo_library (FromAddress (ChainParams demo_solana_prep)) = Inr ?a"
    by (simp add: demo_library_def demo_solana_prep_def)
  have b: "PublicKeyFromBase58 demo_library (ToAddress (ChainParams demo_solana_prep)) = Inr ?b"
    by (simp add: demo_library_def demo_solana_prep_def)
  have h: "HashFromBase58 demo_library (RecentBlockhash (ChainParams demo_solana_prep)) = Some ?h"
    by (simp add: demo_library_def demo_solana_prep_def)
  have new: "NewTransaction demo_library
      [new_transfer_instruction demo_library (ChainParams demo_solana_prep) ?a ?b] ?h
      = (Some ?tx, None)"
    by (simp add: demo_library_def)
  have getter: "solana_key_getter demo_library [4, 5, 6] ?a = None"
    by (simp add: solana_key_getter_def demo_library_def)
  have sign: "sol_Sign demo_library ?tx (solana_key_getter demo_library [4, 5, 6])
      = (?tx, Some (Err ''signer key not found''))"
    using getter
    by (simp add: demo_library_def demo_Sign_def new_transfer_instruction_def)
  have raw: "sol_MarshalBinary demo_library ?tx = Inr ?h"
    by (simp add: demo_library_def)
  from sign solana_signing_discards_errors [OF k key prep a b h new sign raw]
  show ?thesis by simp
qed

section \<open>Base units\<close>










section \<open>The value paid by the marketplace sale\<close>

lemma float_to_wei_zero: "float_to_wei (Finite 0 0) = Inr 0"
  by (simp add: float_to_wei_def SetFloat64_def f64_1e18_def round_prec_def bitlen.simps)

lemma float_to_wei_two: "float_to_wei (Finite 2 0) = Inr 2000000000000000000"
  by (simp add: float_to_wei_def SetFloat64_def f64_1e18_def round_prec_def bitlen.simps)

lemma sale_calls:
  "snd (ExecuteNFTContractTransaction K W t calSwapAmount listedPrice) = []
   \<or> (\<exists>w. float_to_wei (if f64_gt calSwapAmount listedPrice then listedPrice else Finite 0 0)
              = Inr w
          \<and> snd (ExecuteNFTContractTransaction K W t calSwapAmount listedPrice)
              = [\<lparr>call_method = ''executeSale'', call_args = [t], call_value = w,
                  call_chain_id = 1337\<rparr>])"
  by (simp add: ExecuteNFTContractTransaction_def Let_def
      split: option.splits sum.splits)

lemma sale_pays_zero_unless_above_price:
  assumes "\<not> f64_gt calSwapAmount listedPrice"
    and "c \<in> set (snd (ExecuteNFTContractTransaction K W t calSwapAmount listedPrice))"
  shows "call_value c = 0"
  using assms sale_calls [of K W t calSwapAmount listedPrice]
  by (auto simp: float_to_wei_zero)

text \<open>
  C1, at the requested amount 1 and the listed price 2 (\<open>min\<close> is 1, that is
  \<open>10 ^ 18\<close> wei): the sale is executed and the payment value it sends is 0. At the
  requested amount 3 and the listed price 2 it sends \<open>2 * 10 ^ 18\<close> wei.
\<close>

theorem sale_below_price_pays_nothing:
  "ExecuteNFTContractTransaction demo_keys demo_nodes 7 (Finite 1 0) (Finite 2 0)
     = (Inr ''0xsale'',
        [\<lparr>call_method = ''executeSale'', call_args = [7], call_value = 0,
          call_chain_id = 1337\<rparr>])
   \<and> ExecuteNFTContractTransaction demo_keys demo_nodes 7 (Finite 3 0) (Finite 2 0)
     = (Inr ''0xsale'',
        [\<lparr>call_method = ''executeSale'', call_args = [7], call_value = 2000000000000000000,
          call_chain_id = 1337\<rparr>])"
  by (simp add: ExecuteNFTContractTransaction_def demo_keys_def demo_nodes_def
      dyadic_less_def float_to_wei_zero float_to_wei_two)

section \<open>Amounts that do not parse\<close>

lemma parseFloat64_drops_error: "parseFloat64 L s = fst (ParseFloat L s)"
  by (simp add: parseFloat64_def split: prod.splits)

text \<open>
  C3 as stated fails: the amount \<open>abc\<close> does not parse (\<open>ParseFloat\<close> reports an
  error), and \<open>ExecuteTransferMutation\<close> succeeds with it, for the destination token
  ETH (the sale is executed with the requested amount 0) as for another one.
\<close>

theorem unparsable_amount_accepted:
  "snd (ParseFloat demo_library ''abc'') = Some (Err ''strconv.ParseFloat: invalid syntax'')
   \<and> parseFloat64 demo_library ''abc'' = Finite 0 0
   \<and> fst (ExecuteTransferMutation demo_library demo_keys demo_nodes demo_service
          (demo_params\<lparr>amount := ''abc''\<rparr>))
       = Inr (\<lparr>data = ''done'', errors = []\<rparr>, ''0xsale'')
   \<and> fst (ExecuteTransferMutation demo_library demo_keys demo_nodes demo_service
          (demo_params\<lparr>amount := ''abc'', toToken := ''SOL''\<rparr>))
       = Inr (\<lparr>data = ''done'', errors = []\<rparr>, '''')"
  by (simp add: ExecuteTransferMutation_def GetNFTDetails_def parseFloat64_def
      ExecuteNFTContractTransaction_def demo_library_def demo_ParseFloat_def demo_keys_def
      demo_nodes_def demo_service_def demo_params_def demo_nft_def dyadic_less_def
      float_to_wei_zero)

text \<open>
  C3, amended. An amount that does not parse is not an error of the transfer
  workflow: \<open>parseFloat64\<close> returns the number \<open>ParseFloat\<close> produced and drops its
  error. For every amount text, parsable or not: when the NFT lookup succeeds, the sale
  (run only for the destination token ETH, with that number as the requested amount)
  succeeds and the transfer mutation is answered without errors, then
  \<open>ExecuteTransferMutation\<close> succeeds and sends its three messages.
\<close>

theorem transfer_ignores_parse_error:
  assumes "GetNFTDetails S (nftId params) = Inr nft"
    and "toToken params = ''ETH'' \<longrightarrow>
           fst (ExecuteNFTContractTransaction K W (ID nft)
                  (fst (ParseFloat L (amount params))) (fst (ParseFloat L (Price nft))))
             = Inr hash"
    and "toToken params \<noteq> ''ETH'' \<longrightarrow> hash = ''''"
    and "transfer_reply S (transfer_mutation_of params) = TransferDecoded resp"
    and "errors resp = []"
  shows "parseFloat64 L (amount params) = fst (ParseFloat L (amount params))
    \<and> fst (ExecuteTransferMutation L K W S params) = Inr (resp, hash)
    \<and> fst (snd (ExecuteTransferMutation L K W S params))
        = [transfer_initiated, transfer_pending, transfer_completed]"
proof (cases "toToken params = ''ETH''")
  case True
  obtain r calls where sale: "ExecuteNFTContractTransaction K W (ID nft)
      (fst (ParseFloat L (amount params))) (fst (ParseFloat L (Price nft))) = (r, calls)"
    by (cases "ExecuteNFTContractTransaction K W (ID nft)
      (fst (ParseFloat L (amount params))) (fst (ParseFloat L (Price nft)))")
  with True assms(2) have r: "r = Inr hash" by simp
  show ?thesis
    using True assms(1,4,5) sale r
    by (simp add: ExecuteTransferMutation_def parseFloat64_drops_error)
next
  case False
  with assms(3) have "hash = ''''" by simp
  with False assms(1,4,5) show ?thesis
    by (simp add: ExecuteTransferMutation_def parseFloat64_drops_error)
qed

theorem transfer_ignores_parse_error_witness:
  "fst (ExecuteTransferMutation demo_library demo_keys demo_nodes demo_service
          (demo_params\<lparr>amount := ''abc''\<rparr>))
       = Inr (\<lparr>data = ''done'', errors = []\<rparr>, ''0xsale'')
   \<and> fst (snd (ExecuteTransferMutation demo_library demo_keys demo_nodes demo_service
          (demo_params\<lparr>amount := ''abc''\<rparr>)))
       = [transfer_initiated, transfer_pending, transfer_completed]"
proof -
  let ?p = "demo_params\<lparr>amount := ''abc''\<rparr>"
  let ?resp = "\<lparr>data = ''done'', errors = []\<rparr>"
  have a: "GetNFTDetails demo_service (nftId ?p) = Inr demo_nft"
    by (simp add: GetNFTDetails_def demo_service_def)
  have b: "toToken ?p = ''ETH'' \<longrightarrow>
           fst (ExecuteNFTContractTransaction demo_keys demo_nodes (ID demo_nft)
                  (fst (ParseFloat demo_library (amount ?p)))
                  (fst (ParseFloat demo_library (Price demo_nft))))
             = Inr ''0xsale''"
    by (simp add: ExecuteNFTContractTransaction_def demo_library_def demo_ParseFloat_def
        demo_keys_def demo_nodes_def demo_params_def demo_nft_def dyadic_less_def
        float_to_wei_zero)
  have c: "toToken ?p \<noteq> ''ETH'' \<longrightarrow> ''0xsale'' = ''''"
    by (simp add: demo_params_def)
  have d: "transfer_reply demo_service (transfer_mutation_of ?p) = TransferDecoded ?resp"
    by (simp add: demo_service_def)
  have e: "errors ?resp = []" by simp
  from transfer_ignores_parse_error [OF a b c d e]
  show ?thesis by (rule conjunct2)
qed

end
